theory Spec2Isabelle
  imports Main "HOL-Library.AList" "HOL-Library.Multiset"
begin

section \<open>Python values\<close>

text \<open>
  The values that flow through \<open>nsxt_base_resource.py\<close>: module parameters, request
  bodies and API responses. A dict is an association list in insertion order (Python
  dicts iterate in insertion order, and the order decides which exception is met first);
  its keys are strings, as all keys of module parameters and JSON objects are.
  Floating-point numbers are left out.
\<close>

datatype pyval =
    PNone
  | PBool bool
  | PInt int
  | PStr string
  | PList "pyval list"
  | PDict "(string \<times> pyval) list"

datatype exn =
    TypeError
  | KeyError
  | AttributeError
  | NameError
  | DuplicateRequestError
  | OtherException

text \<open>Truth value of an object, as \<open>not x\<close> and \<open>if x\<close> test it.\<close>

fun truthy :: "pyval \<Rightarrow> bool" where
  "truthy PNone = False"
| "truthy (PBool b) = b"
| "truthy (PInt n) = (n \<noteq> 0)"
| "truthy (PStr s) = (s \<noteq> [])"
| "truthy (PList xs) = (xs \<noteq> [])"
| "truthy (PDict kvs) = (kvs \<noteq> [])"

text \<open>\<open>type(v).__name__ == 'dict'\<close>\<close>

fun is_dict :: "pyval \<Rightarrow> bool" where
  "is_dict (PDict kvs) = True"
| "is_dict v = False"

text \<open>
  Python's \<open>==\<close>: \<open>True == 1\<close>, lists compare position by position, dicts compare
  as mappings whatever their insertion order.
\<close>

fun py_eq :: "pyval \<Rightarrow> pyval \<Rightarrow> bool"
  and py_eq_list :: "pyval list \<Rightarrow> pyval list \<Rightarrow> bool"
  and py_eq_items :: "(string \<times> pyval) list \<Rightarrow> (string \<times> pyval) list \<Rightarrow> bool"
where
  "py_eq PNone w = (w = PNone)"
| "py_eq (PBool a) w =
     (case w of PBool b \<Rightarrow> a = b | PInt n \<Rightarrow> n = (if a then 1 else 0) | _ \<Rightarrow> False)"
| "py_eq (PInt m) w =
     (case w of PInt n \<Rightarrow> m = n | PBool b \<Rightarrow> m = (if b then 1 else 0) | _ \<Rightarrow> False)"
| "py_eq (PStr s) w = (w = PStr s)"
| "py_eq (PList xs) w = (case w of PList ys \<Rightarrow> py_eq_list xs ys | _ \<Rightarrow> False)"
| "py_eq (PDict xs) w =
     (case w of PDict ys \<Rightarrow> length xs = length ys \<and> py_eq_items xs ys | _ \<Rightarrow> False)"
| "py_eq_list [] ys = (ys = [])"
| "py_eq_list (x # xs) ys =
     (case ys of [] \<Rightarrow> False | y # ys' \<Rightarrow> py_eq x y \<and> py_eq_list xs ys')"
| "py_eq_items [] ys = True"
| "py_eq_items ((k, v) # xs) ys =
     (case map_of ys k of None \<Rightarrow> False | Some w \<Rightarrow> py_eq v w \<and> py_eq_items xs ys)"

text \<open>\<open>k in s\<close> for two strings: \<open>k\<close> occurs in \<open>s\<close> as a substring.\<close>

fun is_substr :: "string \<Rightarrow> string \<Rightarrow> bool" where
  "is_substr k [] = (k = [])"
| "is_substr k (c # s) = (take (length k) (c # s) = k \<or> is_substr k s)"

text \<open>
  \<open>k in x\<close>, \<open>x[k]\<close> and \<open>x[k] = v\<close> for a string \<open>k\<close>. Only a dict has string
  keys; a list is searched for an equal element, a string for a substring, and the other
  objects raise.
\<close>

fun py_contains :: "string \<Rightarrow> pyval \<Rightarrow> exn + bool" where
  "py_contains k (PDict kvs) = Inr (map_of kvs k \<noteq> None)"
| "py_contains k (PList xs) = Inr (list_ex (\<lambda>x. py_eq x (PStr k)) xs)"
| "py_contains k (PStr s) = Inr (is_substr k s)"
| "py_contains k v = Inl TypeError"

fun py_getitem :: "pyval \<Rightarrow> string \<Rightarrow> exn + pyval" where
  "py_getitem (PDict kvs) k = (case map_of kvs k of None \<Rightarrow> Inl KeyError | Some v \<Rightarrow> Inr v)"
| "py_getitem x k = Inl TypeError"

fun py_setitem :: "pyval \<Rightarrow> string \<Rightarrow> pyval \<Rightarrow> exn + pyval" where
  "py_setitem (PDict kvs) k v = Inr (PDict (AList.update k v kvs))"
| "py_setitem x k v = Inl TypeError"

section \<open>DiffEngine: \<open>check_for_update\<close>\<close>

text \<open>
  \<open>check_for_update(self, existing_params, resource_params)\<close>. The loop over
  \<open>resource_params.items()\<close> is \<open>cfu_items\<close>; a raise is \<open>Inl\<close>.
\<close>

fun check_for_update :: "pyval \<Rightarrow> pyval \<Rightarrow> exn + bool"
  and cfu_items :: "pyval \<Rightarrow> (string \<times> pyval) list \<Rightarrow> exn + bool"
where
  "check_for_update e (PDict items) = (if \<not> truthy e then Inr False else cfu_items e items)"
| "check_for_update e PNone = (if \<not> truthy e then Inr False else Inl AttributeError)"
| "check_for_update e (PBool b) = (if \<not> truthy e then Inr False else Inl AttributeError)"
| "check_for_update e (PInt n) = (if \<not> truthy e then Inr False else Inl AttributeError)"
| "check_for_update e (PStr s) = (if \<not> truthy e then Inr False else Inl AttributeError)"
| "check_for_update e (PList xs) = (if \<not> truthy e then Inr False else Inl AttributeError)"
| "cfu_items e [] = Inr False"
| "cfu_items e ((k, v) # rest) =
     (case py_contains k e of
        Inl err \<Rightarrow> Inl err
      | Inr False \<Rightarrow> Inr True
      | Inr True \<Rightarrow>
          (if is_dict v then
             (case py_getitem e k of
                Inl err \<Rightarrow> Inl err
              | Inr ek \<Rightarrow>
                  (case check_for_update ek v of
                     Inl err \<Rightarrow> Inl err
                   | Inr True \<Rightarrow> Inr True
                   | Inr False \<Rightarrow> cfu_items e rest))
           else
             (case py_getitem e k of
                Inl err \<Rightarrow> Inl err
              | Inr ek \<Rightarrow> if \<not> py_eq v ek then Inr True else cfu_items e rest)))"

section \<open>Back-fill: \<open>_fill_missing_resource_params\<close>\<close>

text \<open>
  \<open>_fill_missing_resource_params(self, existing_params, resource_params)\<close> mutates
  \<open>resource_params\<close> in place and returns nothing. The model returns the object's new
  value together with the exception that stopped the loop, if one did: what was
  written before a raise stays written.
\<close>

fun fill_missing_resource_params :: "pyval \<Rightarrow> pyval \<Rightarrow> pyval \<times> exn option"
  and fill_items :: "(string \<times> pyval) list \<Rightarrow> pyval \<Rightarrow> pyval \<times> exn option"
where
  "fill_missing_resource_params (PDict items) d =
     (if \<not> truthy (PDict items) then (d, None) else fill_items items d)"
| "fill_missing_resource_params PNone d = (d, None)"
| "fill_missing_resource_params (PBool b) d =
     (if \<not> truthy (PBool b) then (d, None) else (d, Some AttributeError))"
| "fill_missing_resource_params (PInt n) d =
     (if \<not> truthy (PInt n) then (d, None) else (d, Some AttributeError))"
| "fill_missing_resource_params (PStr s) d =
     (if \<not> truthy (PStr s) then (d, None) else (d, Some AttributeError))"
| "fill_missing_resource_params (PList xs) d =
     (if \<not> truthy (PList xs) then (d, None) else (d, Some AttributeError))"
| "fill_items [] d = (d, None)"
| "fill_items ((k, v) # rest) d =
     (case py_contains k d of
        Inl err \<Rightarrow> (d, Some err)
      | Inr False \<Rightarrow>
          (case py_setitem d k v of
             Inl err \<Rightarrow> (d, Some err)
           | Inr d' \<Rightarrow> fill_items rest d')
      | Inr True \<Rightarrow>
          (if is_dict v then
             (case py_getitem d k of
                Inl err \<Rightarrow> (d, Some err)
              | Inr dk \<Rightarrow>
                  (case fill_missing_resource_params v dk of
                     (dk', Some err) \<Rightarrow>
                       (case py_setitem d k dk' of Inl _ \<Rightarrow> (d, Some err) | Inr d' \<Rightarrow> (d', Some err))
                   | (dk', None) \<Rightarrow>
                       (case py_setitem d k dk' of Inl _ \<Rightarrow> (d, None) | Inr d' \<Rightarrow> fill_items rest d')))
           else fill_items rest d))"

section \<open>Resource classes\<close>

text \<open>
  A subclass of \<open>NSXTBaseRealizableResource\<close>: what its overridable methods return,
  and the resource classes nested in its body, in the order the class body defines them
  (the order of \<open>resource_class.__dict__.values()\<close>). \<open>spec_keys\<close> are the keys of
  \<open>get_resource_spec()\<close>. The defaults of the base class are
  \<open>get_unique_arg_identifier = get_resource_name\<close>, priority \<open>1\<close>,
  \<open>create_or_update_subresource_first = False\<close>,
  \<open>delete_subresource_first = True\<close>,
  \<open>achieve_subresource_state_if_del_parent = False\<close> and
  \<open>do_wait_till_create = False\<close>.
\<close>

datatype rclass = RClass
  (get_resource_name: string)
  (get_unique_arg_identifier: string)
  (spec_keys: "string list")
  (get_resource_base_url: "(string \<times> pyval) list \<Rightarrow> string")
  (get_resource_creation_priority: int)
  (create_or_update_subresource_first: bool)
  (delete_subresource_first: bool)
  (achieve_subresource_state_if_del_parent: bool)
  (do_wait_till_create: bool)
  (sub_resources: "rclass list")

definition BASE_RESOURCES :: "string list" where
  "BASE_RESOURCES = [''NSXTSegment'', ''NSXTTier0'']"

definition INCORRECT_ARGUMENT_NAME_VALUE :: string where
  "INCORRECT_ARGUMENT_NAME_VALUE = ''error_invalid_parameter''"

definition is_base :: "rclass \<Rightarrow> bool" where
  "is_base cls = (get_resource_name cls \<in> set BASE_RESOURCES)"

text \<open>
  \<open>_get_sub_resources_class_of(self, resource_class)\<close>. The first argument is
  \<open>self._state\<close>, \<open>None\<close> when the attribute is not set yet. \<open>list.sort\<close> is
  stable; with \<open>reverse=True\<close> it reverses the list, sorts it and reverses it again,
  so that equal keys keep their order.
\<close>

definition get_sub_resources_class_of :: "pyval option \<Rightarrow> rclass \<Rightarrow> rclass list" where
  "get_sub_resources_class_of st resource_class =
     (if st = Some (PStr ''present'')
      then rev (sort_key get_resource_creation_priority (rev (sub_resources resource_class)))
      else sort_key get_resource_creation_priority (sub_resources resource_class))"

text \<open>\<open>d.get(k, default)\<close> on the module parameters.\<close>

definition dict_get :: "(string \<times> pyval) list \<Rightarrow> string \<Rightarrow> pyval \<Rightarrow> pyval" where
  "dict_get d k dflt = (case map_of d k of None \<Rightarrow> dflt | Some v \<Rightarrow> v)"

text \<open>
  \<open>_getAttribute(self, attribute)\<close>. \<open>pstate\<close> is what
  \<open>self._parent_info["_parent"].get_state()\<close> reads: \<open>None\<close> when the dict has no
  \<open>"_parent"\<close> entry (a \<open>KeyError\<close>), else the \<open>_state\<close> of the object stored there.
\<close>

definition getAttribute ::
  "(string \<times> pyval) list \<Rightarrow> rclass \<Rightarrow> pyval option \<Rightarrow> string \<Rightarrow> exn + pyval" where
  "getAttribute params cls pstate attribute =
     (if is_base cls then
        Inr (dict_get params attribute
               (dict_get params (get_resource_name cls @ ''_'' @ attribute)
                  (PStr INCORRECT_ARGUMENT_NAME_VALUE)))
      else if attribute = ''state'' then
        (case pstate of
           None \<Rightarrow> Inl KeyError
         | Some ps \<Rightarrow>
             if ps = PStr ''absent'' \<and> \<not> achieve_subresource_state_if_del_parent cls
             then Inr (PStr ''absent'')
             else Inr (dict_get params (get_unique_arg_identifier cls @ ''_'' @ attribute)
                         (PStr INCORRECT_ARGUMENT_NAME_VALUE)))
      else Inr (dict_get params (get_unique_arg_identifier cls @ ''_'' @ attribute)
                  (PStr INCORRECT_ARGUMENT_NAME_VALUE)))"

text \<open>The keys of \<open>_get_base_arg_spec_of_resource()\<close>, in the order they are given.\<close>

definition base_arg_spec_keys :: "string list" where
  "base_arg_spec_keys = [''id'', ''display_name'', ''description'', ''tags'', ''state'']"

text \<open>
  \<open>_extract_resource_params\<close>: \<open>filter_with_spec\<close> is its inner function, run on the
  resource's own spec and then on the base spec; \<open>acc\<close> is the dict \<open>params\<close> it
  fills.
\<close>

definition unwanted_resource_params :: "rclass \<Rightarrow> string list" where
  "unwanted_resource_params cls =
     (if is_base cls then [''state'', ''id'']
      else map (\<lambda>u. get_unique_arg_identifier cls @ ''_'' @ u) [''state'', ''id''])"

fun filter_with_spec ::
  "(string \<times> pyval) list \<Rightarrow> rclass \<Rightarrow> string list \<Rightarrow> (string \<times> pyval) list \<Rightarrow> (string \<times> pyval) list"
where
  "filter_with_spec params cls [] acc = acc"
| "filter_with_spec params cls (key # keys) acc =
     (let arg_key = (if is_base cls then key else get_unique_arg_identifier cls @ ''_'' @ key) in
      if map_of params arg_key \<noteq> None
         \<and> arg_key \<notin> set (unwanted_resource_params cls)
         \<and> map_of params arg_key \<noteq> Some PNone
      then filter_with_spec params cls keys (AList.update key (the (map_of params arg_key)) acc)
      else filter_with_spec params cls keys acc)"

definition extract_resource_params :: "(string \<times> pyval) list \<Rightarrow> rclass \<Rightarrow> (string \<times> pyval) list" where
  "extract_resource_params params cls =
     filter_with_spec params cls base_arg_spec_keys
       (filter_with_spec params cls (spec_keys cls) [])"

section \<open>Poller: \<open>_wait_till_create\<close>\<close>

definition IN_PROGRESS_STATES :: "string list" where
  "IN_PROGRESS_STATES = [''pending'', ''in_progress'']"

definition SUCCESS_STATES :: "string list" where
  "SUCCESS_STATES = [''partial_success'', ''success'']"

text \<open>
  \<open>FAILED_STATES\<close> is assigned in \<open>_wait_till_create\<close> and never read.
  \<open>any(x in s for s in states)\<close>: \<open>x in s\<close> with a string on the right asks whether
  \<open>x\<close> occurs in it, and raises when \<open>x\<close> is not a string.
\<close>

fun in_any :: "pyval \<Rightarrow> string list \<Rightarrow> exn + bool" where
  "in_any x [] = Inr False"
| "in_any (PStr s) (p # ps) = (if is_substr s p then Inr True else in_any (PStr s) ps)"
| "in_any x (p # ps) = Inl TypeError"

text \<open>
  The three classes of a status value, by the \<open>if\<close>/\<open>elif\<close>/\<open>else\<close> of
  \<open>_wait_till_create\<close>.
\<close>

datatype status_class = InProgress | Success | Failed

definition classify :: "pyval \<Rightarrow> exn + status_class" where
  "classify sv =
     (case in_any sv IN_PROGRESS_STATES of
        Inl err \<Rightarrow> Inl err
      | Inr True \<Rightarrow> Inr InProgress
      | Inr False \<Rightarrow>
          (case in_any sv SUCCESS_STATES of
             Inl err \<Rightarrow> Inl err
           | Inr True \<Rightarrow> Inr Success
           | Inr False \<Rightarrow> Inr Failed))"

text \<open>
  The loop of \<open>_wait_till_create\<close>. \<open>fetch\<close> is one call of
  \<open>self._send_request_to_API("/" + self.id)\<close> on the state \<open>s\<close> of everything it
  touches: it raises or returns \<open>(rc, resp)\<close>. \<open>cnt\<close> is the local \<open>count\<close>, \<open>n\<close>
  the number of fetches made and \<open>z\<close> the time slept so far. Every exception in the body
  is caught by the \<open>except Exception\<close> around the loop, which returns \<open>False\<close>.
  The result is \<open>None\<close> if the loop never returns.
\<close>

partial_function (option) wtc_loop ::
  "('s \<Rightarrow> (exn + int \<times> pyval) \<times> 's) \<Rightarrow> 's \<Rightarrow> int \<Rightarrow> nat \<Rightarrow> int \<Rightarrow> (bool \<times> 's \<times> nat \<times> int) option"
where
  "wtc_loop fetch s cnt n z =
     (case fetch s of
        (Inl err, s') \<Rightarrow> Some (False, s', n + 1, z)
      | (Inr (rc, resp), s') \<Rightarrow>
          (case py_contains ''state'' resp of
             Inl err \<Rightarrow> Some (False, s', n + 1, z)
           | Inr has_state \<Rightarrow>
               if has_state then
                 (case py_getitem resp ''state'' of
                    Inl err \<Rightarrow> Some (False, s', n + 1, z)
                  | Inr sv \<Rightarrow>
                      (case classify sv of
                         Inl err \<Rightarrow> Some (False, s', n + 1, z)
                       | Inr c \<Rightarrow>
                           (case c of
                              InProgress \<Rightarrow>
                                if cnt + 1 = 90 then Some (False, s', n + 1, z + 10)
                                else wtc_loop fetch s' (cnt + 1) (n + 1) (z + 10)
                            | Success \<Rightarrow> Some (True, s', n + 1, z)
                            | Failed \<Rightarrow> Some (False, s', n + 1, z))))
               else if rc \<noteq> 200 then
                 (if cnt + 1 = 90 then Some (False, s', n + 1, z + 1)
                  else wtc_loop fetch s' (cnt + 1) (n + 1) (z + 1))
               else Some (True, s', n + 1, z)))"

declare wtc_loop.simps [code]

definition wait_till_create ::
  "('s \<Rightarrow> (exn + int \<times> pyval) \<times> 's) \<Rightarrow> 's \<Rightarrow> (bool \<times> 's \<times> nat \<times> int) option" where
  "wait_till_create fetch s = wtc_loop fetch s 0 0 0"

section \<open>The reconciler\<close>

subsection \<open>Requests, the result log and the state of a run\<close>

text \<open>
  \<open>PolicyCommunicator\<close> is not part of this module: \<open>request\<close> is taken as a
  parameter, a function of the manager's state \<open>'r\<close> that raises or returns
  \<open>(rc, resp)\<close>. So is \<open>AnsibleModule\<close>: the parameters it parsed and its
  \<open>check_mode\<close> are inputs of the run; every resource of the tree builds its module from
  the same argument spec and the same input.
\<close>

datatype meth = GET | PATCH | DELETE

record request =
  url :: string
  http_method :: meth
  ignore_errors :: bool
  data :: pyval

record 'r env =
  params :: "(string \<times> pyval) list"
  check_mode :: bool
  communicator :: "'r \<Rightarrow> request \<Rightarrow> (exn + int \<times> pyval) \<times> 'r"

text \<open>
  An entry of \<open>successful_resource_exec_logs\<close>: \<open>Keyed i fields\<close> is the dict
  \<open>{i: {fields}}\<close>, \<open>Flat fields\<close> the dict \<open>{fields}\<close>. Under
  \<open>''debug_out''\<close> the entry holds the parameters that \<open>json.dumps\<close> would
  serialise, and under \<open>''body''\<close> the pair \<open>(rc, resp)\<close> that \<open>str\<close> would print.
\<close>

datatype log_entry =
    Keyed pyval "(string \<times> pyval) list"
  | Flat "(string \<times> pyval) list"

text \<open>
  The two list objects a log can be: the list that is the default value of \<open>realize\<close>'s
  parameter \<open>successful_resource_exec_logs\<close> (one object, made when the function is
  defined), and a list the caller of \<open>realize\<close> made.
\<close>

datatype logref = DefaultLogs | CallerLogs

text \<open>What \<open>realize\<close> receives as \<open>supports_check_mode\<close>: a bool, or a list object.\<close>

datatype scm = ScmBool bool | ScmList logref

text \<open>
  The mutable objects of a run. \<open>parent_info\<close> holds the string entries of the one
  \<open>_parent_info\<close> dict that the root creates and every sub-resource is handed
  (\<open>sub_resource._parent_info = self._parent_info\<close>); \<open>parent_state\<close> is the
  \<open>_state\<close> of the object under its key \<open>"_parent"\<close>, \<open>None\<close> while there is no
  such key. \<open>calls\<close> are the requests sent so far and \<open>slept\<close> the seconds slept.
\<close>

record 'r world =
  remote :: 'r
  calls :: "request list"
  slept :: int
  default_logs :: "log_entry list"
  caller_logs :: "log_entry list"
  parent_info :: "(string \<times> pyval) list"
  parent_state :: "pyval option"

definition append_log :: "logref \<Rightarrow> log_entry \<Rightarrow> 'r world \<Rightarrow> 'r world" where
  "append_log l e w =
     (case l of
        DefaultLogs \<Rightarrow> w\<lparr>default_logs := default_logs w @ [e]\<rparr>
      | CallerLogs \<Rightarrow> w\<lparr>caller_logs := caller_logs w @ [e]\<rparr>)"

definition read_log :: "logref \<Rightarrow> 'r world \<Rightarrow> log_entry list" where
  "read_log l w = (case l of DefaultLogs \<Rightarrow> default_logs w | CallerLogs \<Rightarrow> caller_logs w)"

text \<open>
  How a call ends when it does not return: an exception of class \<open>Exception\<close>, or the
  \<open>SystemExit\<close> of \<open>module.exit_json\<close> and \<open>module.fail_json\<close>, which no
  \<open>except Exception\<close> catches. \<open>ExitJson l\<close> and \<open>FailJson (Some l)\<close> report the
  list \<open>l\<close> as \<open>successfully_updated_resources\<close>.
\<close>

datatype abort = Raised exn | ExitJson logref | FailJson "logref option"

subsection \<open>Strings\<close>

text \<open>\<open>"/" + x\<close>: a \<open>TypeError\<close> unless \<open>x\<close> is a string.\<close>

fun str_concat :: "string \<Rightarrow> pyval \<Rightarrow> exn + string" where
  "str_concat s (PStr t) = Inr (s @ t)"
| "str_concat s v = Inl TypeError"

function dec :: "nat \<Rightarrow> string" where
  "dec n = (if n < 10 then [char_of (48 + n)] else dec (n div 10) @ [char_of (48 + n mod 10)])"
  by pat_completeness auto
termination
  by (relation "measure (\<lambda>n. n)") auto

text \<open>
  \<open>"%s" % x\<close>. The argument spec types every \<open>id\<close> as \<open>str\<close>, so a container does
  not get here; its \<open>repr\<close> is not spelled out.
\<close>

fun py_str :: "pyval \<Rightarrow> string" where
  "py_str (PStr s) = s"
| "py_str PNone = ''None''"
| "py_str (PBool b) = (if b then ''True'' else ''False'')"
| "py_str (PInt i) = (if i < 0 then CHR ''-'' # dec (nat (- i)) else dec (nat i))"
| "py_str (PList xs) = ''[...]''"
| "py_str (PDict kvs) = ''{...}''"

subsection \<open>\<open>_send_request_to_API\<close>\<close>

definition send_request_to_API ::
  "'r env \<Rightarrow> rclass \<Rightarrow> string \<Rightarrow> bool \<Rightarrow> meth \<Rightarrow> pyval \<Rightarrow> 'r world \<Rightarrow> (exn + int \<times> pyval) \<times> 'r world" where
  "send_request_to_API env cls suffix ignore_error m d w =
     (let req = \<lparr>url = get_resource_base_url cls (parent_info w) @ suffix,
                  http_method = m, ignore_errors = ignore_error, data = d\<rparr>;
          (res, r') = communicator env (remote w) req
      in (res, w\<lparr>remote := r', calls := calls w @ [req]\<rparr>))"

subsection \<open>\<open>_wait_till_delete\<close> and \<open>_wait_till_create\<close>\<close>

text \<open>
  \<open>_wait_till_delete\<close> has no bound: the result is \<open>None\<close> when the resource never
  goes away. The \<open>TypeError\<close> of \<open>"/" + self.id\<close> is caught like every other
  exception, and the method returns.
\<close>

partial_function (option) wait_till_delete ::
  "'r env \<Rightarrow> rclass \<Rightarrow> pyval \<Rightarrow> 'r world \<Rightarrow> ((abort + unit) \<times> 'r world) option"
where
  "wait_till_delete env cls rid w =
     (case str_concat ''/'' rid of
        Inl err \<Rightarrow> Some (Inr (), w)
      | Inr suffix \<Rightarrow>
          (case send_request_to_API env cls suffix True GET PNone w of
             (Inl err, w') \<Rightarrow>
               if err = DuplicateRequestError then Some (Inl (FailJson None), w')
               else Some (Inr (), w')
           | (Inr resp, w') \<Rightarrow> wait_till_delete env cls rid (w'\<lparr>slept := slept w' + 10\<rparr>)))"

declare wait_till_delete.simps [code]

text \<open>
  \<open>_wait_till_create\<close> on the state of a run: the \<open>"/" + self.id\<close> inside the
  \<open>try\<close> comes first, then the loop, whose sleeps are added to \<open>slept\<close>.
\<close>

definition wait_till_create_of ::
  "'r env \<Rightarrow> rclass \<Rightarrow> pyval \<Rightarrow> 'r world \<Rightarrow> (bool \<times> 'r world) option" where
  "wait_till_create_of env cls rid w =
     (case str_concat ''/'' rid of
        Inl err \<Rightarrow> Some (False, w)
      | Inr suffix \<Rightarrow>
          (case wait_till_create (send_request_to_API env cls suffix True GET PNone) w of
             None \<Rightarrow> None
           | Some (ok, w', n, z) \<Rightarrow> Some (ok, w'\<lparr>slept := slept w' + z\<rparr>)))"

subsection \<open>\<open>_achieve_present_state\<close> and \<open>_achieve_absent_state\<close>\<close>

definition created_entry :: "rclass \<Rightarrow> pyval \<Rightarrow> int \<times> pyval \<Rightarrow> log_entry" where
  "created_entry cls rid resp =
     Keyed rid
       [(''changed'', PBool True),
        (''id'', rid),
        (''body'', PList [PInt (fst resp), snd resp]),
        (''message'', PStr (get_resource_name cls @ '' with id '' @ py_str rid @ '' created.'')),
        (''resource_type'', PStr (get_resource_name cls))]"

definition achieve_present_state ::
  "'r env \<Rightarrow> rclass \<Rightarrow> pyval \<Rightarrow> pyval \<Rightarrow> pyval \<Rightarrow> logref \<Rightarrow> 'r world
     \<Rightarrow> ((abort + unit) \<times> 'r world) option" where
  "achieve_present_state env cls rid existing_resource resource_params logs w =
     (case check_for_update existing_resource resource_params of
        Inl err \<Rightarrow> Some (Inl (Raised err), w)
      | Inr is_resource_updated \<Rightarrow>
          if \<not> is_resource_updated then
            (if check_mode env then
               Some (Inr (), append_log logs
                 (Keyed rid
                    [(''changed'', PBool True),
                     (''debug_out'', resource_params),
                     (''id'', PStr ''12345''),
                     (''resource_type'', PStr (get_resource_name cls))]) w)
             else if truthy existing_resource then
               Some (Inr (), append_log logs
                 (Keyed rid
                    [(''changed'', PBool False),
                     (''id'', rid),
                     (''message'', PStr (get_resource_name cls @ '' with id '' @ py_str rid
                                          @ '' already exists.'')),
                     (''resource_type'', PStr (get_resource_name cls))]) w)
             else
               (case str_concat ''/'' rid of
                  Inl err \<Rightarrow> Some (Inl (FailJson (Some logs)), w)
                | Inr suffix \<Rightarrow>
                    (case send_request_to_API env cls suffix True PATCH resource_params w of
                       (Inl err, w') \<Rightarrow> Some (Inl (FailJson (Some logs)), w')
                     | (Inr resp, w') \<Rightarrow>
                         if do_wait_till_create cls then
                           (case wait_till_create_of env cls rid w' of
                              None \<Rightarrow> None
                            | Some (ok, w'') \<Rightarrow>
                                if \<not> ok then Some (Inl (FailJson (Some logs)), w'')
                                else Some (Inr (), append_log logs (created_entry cls rid resp) w''))
                         else Some (Inr (), append_log logs (created_entry cls rid resp) w'))))
          else
            (if check_mode env then Some (Inl (Raised NameError), w)
             else
               (case py_getitem existing_resource ''_revision'' of
                  Inl err \<Rightarrow> Some (Inl (Raised err), w)
                | Inr revision \<Rightarrow>
                    (case py_setitem resource_params ''_revision'' revision of
                       Inl err \<Rightarrow> Some (Inl (Raised err), w)
                     | Inr resource_params' \<Rightarrow>
                         (case str_concat ''/'' rid of
                            Inl err \<Rightarrow> Some (Inl (FailJson (Some logs)), w)
                          | Inr suffix \<Rightarrow>
                              (case send_request_to_API env cls suffix True PATCH resource_params' w of
                                 (Inl err, w') \<Rightarrow> Some (Inl (FailJson (Some logs)), w')
                               | (Inr resp, w') \<Rightarrow>
                                   Some (Inr (), append_log logs
                                     (Flat
                                        [(''changed'', PBool True),
                                         (''id'', rid),
                                         (''body'', PList [PInt (fst resp), snd resp]),
                                         (''message'', PStr (get_resource_name cls @ '' with id ''
                                                              @ py_str rid @ '' updated.'')),
                                         (''resource_type'', PStr (get_resource_name cls))]) w')))))))"

definition achieve_absent_state ::
  "'r env \<Rightarrow> rclass \<Rightarrow> pyval \<Rightarrow> pyval \<Rightarrow> pyval \<Rightarrow> logref \<Rightarrow> 'r world
     \<Rightarrow> ((abort + unit) \<times> 'r world) option" where
  "achieve_absent_state env cls rid existing_resource resource_params logs w =
     (if existing_resource = PNone then
        Some (Inr (), append_log logs
          (Keyed rid
             [(''changed'', PBool False),
              (''msg'', PStr (''No '' @ get_resource_name cls @ '' exist with id '' @ py_str rid)),
              (''resource_type'', PStr (get_resource_name cls))]) w)
      else if check_mode env then
        Some (Inr (), append_log logs
          (Flat
             [(''changed'', PBool True),
              (''debug_out'', resource_params),
              (''id'', rid),
              (''resource_type'', PStr (get_resource_name cls))]) w)
      else
        (case str_concat ''/'' rid of
           Inl err \<Rightarrow> Some (Inl (FailJson (Some logs)), w)
         | Inr suffix \<Rightarrow>
             (case send_request_to_API env cls suffix True DELETE PNone w of
                (Inl err, w') \<Rightarrow> Some (Inl (FailJson (Some logs)), w')
              | (Inr resp, w') \<Rightarrow>
                  (case wait_till_delete env cls rid w' of
                     None \<Rightarrow> None
                   | Some (Inl a, w'') \<Rightarrow> Some (Inl a, w'')
                   | Some (Inr u, w'') \<Rightarrow>
                       Some (Inr (), append_log logs
                         (Flat
                            [(''changed'', PBool True),
                             (''id'', rid),
                             (''message'', PStr (get_resource_name cls @ '' with id ''
                                                  @ py_str rid @ '' deleted.''))]) w'')))))"

subsection \<open>\<open>realize\<close>, \<open>_achieve_state\<close> and \<open>achieve_subresource_state\<close>\<close>

text \<open>
  The \<open>try\<close> block of \<open>realize\<close>: fetch the resource and back-fill
  \<open>resource_params\<close>. Any exception, of the fetch or of the fill, sets
  \<open>existing_resource\<close> to \<open>None\<close>. The result is
  \<open>(existing_resource, resource_params, world)\<close>.
\<close>

definition resolve_existing ::
  "'r env \<Rightarrow> rclass \<Rightarrow> pyval \<Rightarrow> pyval \<Rightarrow> 'r world \<Rightarrow> pyval \<times> pyval \<times> 'r world" where
  "resolve_existing env cls rid resource_params w =
     (case str_concat ''/'' rid of
        Inl err \<Rightarrow> (PNone, resource_params, w)
      | Inr suffix \<Rightarrow>
          (case send_request_to_API env cls suffix False GET PNone w of
             (Inl err, w') \<Rightarrow> (PNone, resource_params, w')
           | (Inr (rc, resp), w') \<Rightarrow>
               (case fill_missing_resource_params resp resource_params of
                  (resource_params', Some err) \<Rightarrow> (PNone, resource_params', w')
                | (resource_params', None) \<Rightarrow> (resp, resource_params', w'))))"

text \<open>Run \<open>f\<close> after \<open>m\<close> unless \<open>m\<close> did not return.\<close>

definition and_then ::
  "((abort + unit) \<times> 'r world) option \<Rightarrow> ('r world \<Rightarrow> ((abort + unit) \<times> 'r world) option)
     \<Rightarrow> ((abort + unit) \<times> 'r world) option" where
  "and_then m f =
     (case m of
        None \<Rightarrow> None
      | Some (Inl a, w) \<Rightarrow> Some (Inl a, w)
      | Some (Inr u, w) \<Rightarrow> f w)"

text \<open>
  \<open>realize env cls supports_check_mode logs has_parent_info\<close> is
  \<open>cls().realize(supports_check_mode, logs)\<close>; \<open>has_parent_info\<close> says whether the
  object was given a \<open>_parent_info\<close> and an \<open>_arg_spec\<close> before the call, as
  \<open>achieve_subresource_state\<close> does for a sub-resource; without them a class outside
  \<open>BASE_RESOURCES\<close> has no \<open>_arg_spec\<close> to build its module from. \<open>==\<close> against
  a string literal is equality of values. The loop of
  \<open>achieve_subresource_state\<close> takes the classes that
  \<open>_get_sub_resources_class_of\<close> yields; its call
  \<open>sub_resource.realize(successful_resource_exec_logs)\<close> has one positional argument.
\<close>

function realize ::
    "'r env \<Rightarrow> rclass \<Rightarrow> scm \<Rightarrow> logref \<Rightarrow> bool \<Rightarrow> 'r world \<Rightarrow> ((abort + unit) \<times> 'r world) option"
  and achieve_state ::
    "'r env \<Rightarrow> rclass \<Rightarrow> pyval \<Rightarrow> pyval \<Rightarrow> pyval \<Rightarrow> pyval \<Rightarrow> logref \<Rightarrow> 'r world
       \<Rightarrow> ((abort + unit) \<times> 'r world) option"
  and achieve_subresource_state ::
    "'r env \<Rightarrow> rclass list \<Rightarrow> logref \<Rightarrow> 'r world \<Rightarrow> ((abort + unit) \<times> 'r world) option"
where
  "realize env cls supports_check_mode logs has_parent_info w =
     (if \<not> has_parent_info \<and> \<not> is_base cls then Some (Inl (Raised AttributeError), w)
      else case getAttribute (params env) cls (parent_state w) ''state'' of
        Inl err \<Rightarrow> Some (Inl (Raised err), w)
      | Inr st \<Rightarrow>
          (case getAttribute (params env) cls (parent_state w) ''id'' of
             Inl err \<Rightarrow> Some (Inl (Raised err), w)
           | Inr rid \<Rightarrow>
               (let resource_params = PDict (extract_resource_params (params env) cls);
                    w1 = (if has_parent_info then w else w\<lparr>parent_info := [], parent_state := None\<rparr>);
                    w2 = w1\<lparr>parent_info :=
                              AList.update (get_unique_arg_identifier cls @ ''_id'') rid (parent_info w1)\<rparr>;
                    w3 = w2\<lparr>parent_state := Some st\<rparr>
                in case resolve_existing env cls rid resource_params w3 of
                     (existing_resource, resource_params', w4) \<Rightarrow>
                       achieve_state env cls st rid existing_resource resource_params' logs w4)))"
| "achieve_state env cls st rid existing_resource resource_params logs w =
     (if rid = PStr INCORRECT_ARGUMENT_NAME_VALUE then Some (Inr (), w)
      else
        and_then
          (if st = PStr ''present'' \<and> create_or_update_subresource_first cls
           then achieve_subresource_state env (get_sub_resources_class_of (Some st) cls) logs w
           else Some (Inr (), w))
        (\<lambda>w. and_then
          (if st = PStr ''absent'' \<and> delete_subresource_first cls
           then achieve_subresource_state env (get_sub_resources_class_of (Some st) cls) logs w
           else Some (Inr (), w))
        (\<lambda>w. and_then
          (if st = PStr ''present''
           then achieve_present_state env cls rid existing_resource resource_params logs w
           else achieve_absent_state env cls rid existing_resource resource_params logs w)
        (\<lambda>w. and_then
          (if st = PStr ''present'' \<and> \<not> create_or_update_subresource_first cls
           then achieve_subresource_state env (get_sub_resources_class_of (Some st) cls) logs w
           else Some (Inr (), w))
        (\<lambda>w. and_then
          (if st = PStr ''absent'' \<and> \<not> delete_subresource_first cls
           then achieve_subresource_state env (get_sub_resources_class_of (Some st) cls) logs w
           else Some (Inr (), w))
        (\<lambda>w. if is_base cls then Some (Inl (ExitJson logs), w) else Some (Inr (), w)))))))"
| "achieve_subresource_state env [] logs w = Some (Inr (), w)"
| "achieve_subresource_state env (sub_resource_class # rest) logs w =
     and_then (realize env sub_resource_class (ScmList logs) DefaultLogs True w)
       (\<lambda>w. achieve_subresource_state env rest logs w)"
  by pat_completeness auto
termination
proof -
  have ins: "size_list f (insort_key k x xs) = Suc (f x + size_list f xs)"
    for f :: "rclass \<Rightarrow> nat" and k :: "rclass \<Rightarrow> int" and x xs
    by (induction xs) auto
  have srt: "size_list f (sort_key k xs) = size_list f xs"
    for f :: "rclass \<Rightarrow> nat" and k :: "rclass \<Rightarrow> int" and xs
    by (induction xs) (auto simp: ins)
  have rv: "size_list f (rev xs) = size_list f xs" for f :: "rclass \<Rightarrow> nat" and xs
    by (induction xs) auto
  have sub: "3 * size_list size (get_sub_resources_class_of st cls) < Suc (3 * size cls)" for st cls
    by (cases cls) (simp add: get_sub_resources_class_of_def srt rv)
  show ?thesis
    by (relation "measure (\<lambda>x. case x of
            Inl (env, cls, scm, logs, h, w) \<Rightarrow> 3 * size cls + 2
          | Inr (Inl (env, cls, st, rid, ex, rp, logs, w)) \<Rightarrow> 3 * size cls + 1
          | Inr (Inr (env, clss, logs, w)) \<Rightarrow> 3 * size_list size clss)")
       (auto simp: sub)
qed

section \<open>Notions the properties are stated with\<close>

subsection \<open>Back-fill\<close>


subsection \<open>The diff as the specification words it\<close>








subsection \<open>What one fetch of the poller reports\<close>

text \<open>The response carries a status field, and its value is of class \<open>c\<close>.\<close>

definition reports :: "status_class \<Rightarrow> (exn + int \<times> pyval) \<Rightarrow> bool" where
  "reports c out =
     (case out of
        Inl err \<Rightarrow> False
      | Inr (rc, resp) \<Rightarrow>
          py_contains ''state'' resp = Inr True \<and>
          (case py_getitem resp ''state'' of Inl err \<Rightarrow> False | Inr sv \<Rightarrow> classify sv = Inr c))"

text \<open>The response carries no status field and the status code is not 200.\<close>

definition no_status_not_200 :: "(exn + int \<times> pyval) \<Rightarrow> bool" where
  "no_status_not_200 out =
     (case out of
        Inl err \<Rightarrow> False
      | Inr (rc, resp) \<Rightarrow> py_contains ''state'' resp = Inr False \<and> rc \<noteq> 200)"

text \<open>The fetch raises, or reading the status of its response does.\<close>

definition body_raises :: "(exn + int \<times> pyval) \<Rightarrow> bool" where
  "body_raises out =
     (case out of
        Inl err \<Rightarrow> True
      | Inr (rc, resp) \<Rightarrow>
          (case py_contains ''state'' resp of
             Inl err \<Rightarrow> True
           | Inr has_state \<Rightarrow>
               has_state \<and>
               (case py_getitem resp ''state'' of
                  Inl err \<Rightarrow> True
                | Inr sv \<Rightarrow> (case classify sv of Inl err \<Rightarrow> True | Inr c \<Rightarrow> False))))"

subsection \<open>A manager and resource classes for the examples\<close>

text \<open>
  A manager that keeps what is PATCHed under its URL, raises on a GET or DELETE of a URL
  it does not hold, and answers 200 otherwise.
\<close>

definition store_request ::
  "(string \<times> pyval) list \<Rightarrow> request \<Rightarrow> (exn + int \<times> pyval) \<times> (string \<times> pyval) list" where
  "store_request r q =
     (case http_method q of
        GET \<Rightarrow> (case map_of r (url q) of
                  None \<Rightarrow> (Inl OtherException, r)
                | Some v \<Rightarrow> (Inr (200, v), r))
      | PATCH \<Rightarrow> (Inr (200, data q), AList.update (url q) (data q) r)
      | DELETE \<Rightarrow> (case map_of r (url q) of
                     None \<Rightarrow> (Inl OtherException, r)
                   | Some v \<Rightarrow> (Inr (200, PNone), AList.delete (url q) r)))"

definition fresh_world :: "(string \<times> pyval) list \<Rightarrow> (string \<times> pyval) list world" where
  "fresh_world r =
     \<lparr>remote = r, calls = [], slept = 0, default_logs = [], caller_logs = [],
      parent_info = [], parent_state = None\<rparr>"

text \<open>A sub-resource class with the defaults of the base class, but for its priority.\<close>

definition plain_class :: "string \<Rightarrow> int \<Rightarrow> rclass" where
  "plain_class name priority =
     RClass name name [] (\<lambda>parent_info. ''/infra/'' @ name) priority False True False False []"

definition segment_with :: "rclass list \<Rightarrow> rclass" where
  "segment_with subs =
     RClass ''NSXTSegment'' ''NSXTSegment'' [] (\<lambda>parent_info. ''/infra/segments'') 1
       False True False False subs"

text \<open>
  A sub-resource class that overrides \<open>achieve_subresource_state_if_del_parent\<close> to
  return \<open>True\<close>: it is realized with its own state whatever the parent's state is.
\<close>

definition standalone_class :: "string \<Rightarrow> int \<Rightarrow> rclass" where
  "standalone_class name priority =
     RClass name name [] (\<lambda>parent_info. ''/infra/'' @ name) priority False True True False []"

text \<open>The text of a log entry: its \<open>message\<close>, or else its \<open>msg\<close>.\<close>

definition entry_text :: "log_entry \<Rightarrow> pyval" where
  "entry_text e =
     (case e of
        Keyed i f \<Rightarrow> dict_get f ''message'' (dict_get f ''msg'' PNone)
      | Flat f \<Rightarrow> dict_get f ''message'' (dict_get f ''msg'' PNone))"

section \<open>Lemmas\<close>

subsection \<open>Back-fill keeps what is there\<close>









lemma fill_items_frame:
  "\<exists>rs. fst (fill_items es (PDict ds)) = PDict rs \<and> (\<forall>k. k \<notin> fst ` set es \<longrightarrow> map_of rs k = map_of ds k)"
proof (induction es arbitrary: ds)
  case Nil
  then show ?case by simp
next
  case (Cons p es)
  obtain k v where p: "p = (k, v)" by force
  show ?case
  proof (cases "map_of ds k")
    case None
    from Cons.IH[of "AList.update k v ds"] obtain rs where
      rs: "fst (fill_items es (PDict (AList.update k v ds))) = PDict rs"
          "\<forall>k'. k' \<notin> fst ` set es \<longrightarrow> map_of rs k' = map_of (AList.update k v ds) k'" by blast
    show ?thesis using None rs by (simp add: p update_conv')
  next
    case (Some dk)
    show ?thesis
    proof (cases "is_dict v")
      case False
      then show ?thesis using Some Cons.IH[of ds] by (auto simp: p)
    next
      case True
      obtain dk' x where f: "fill_missing_resource_params v dk = (dk', x)" by force
      from Cons.IH[of "AList.update k dk' ds"] obtain rs where
        rs: "fst (fill_items es (PDict (AList.update k dk' ds))) = PDict rs"
          "\<forall>k'. k' \<notin> fst ` set es \<longrightarrow> map_of rs k' = map_of (AList.update k dk' ds) k'" by blast
      show ?thesis using Some True f rs by (cases x) (simp_all add: p update_conv')
    qed
  qed
qed

lemma fill_items_absent:
  "distinct (map fst es) \<Longrightarrow> fill_items es (PDict ds) = (PDict rs, None) \<Longrightarrow>
   map_of ds k = None \<Longrightarrow> map_of rs k = map_of es k"
proof (induction es arbitrary: ds)
  case Nil
  then show ?case by simp
next
  case (Cons p es)
  obtain k0 v where p: "p = (k0, v)" by force
  from Cons.prems(1) p have dist: "distinct (map fst es)" and k0: "k0 \<notin> fst ` set es" by auto
  show ?case
  proof (cases "map_of ds k0")
    case None
    with Cons.prems(2) have r: "fill_items es (PDict (AList.update k0 v ds)) = (PDict rs, None)"
      by (simp add: p)
    show ?thesis
    proof (cases "k = k0")
      case True
      from fill_items_frame[of es "AList.update k0 v ds"] r k0
      have "map_of rs k0 = map_of (AList.update k0 v ds) k0" by auto
      then show ?thesis using True by (simp add: p update_conv')
    next
      case False
      then have "map_of (AList.update k0 v ds) k = None" using Cons.prems(3) by (simp add: update_conv')
      from Cons.IH[OF dist r this] show ?thesis using False by (simp add: p)
    qed
  next
    case (Some dk)
    then have ne: "k \<noteq> k0" using Cons.prems(3) by auto
    show ?thesis
    proof (cases "is_dict v")
      case False
      with Cons.prems(2) Some have r: "fill_items es (PDict ds) = (PDict rs, None)" by (simp add: p)
      from Cons.IH[OF dist r Cons.prems(3)] show ?thesis using ne by (simp add: p)
    next
      case True
      obtain dk' x where f: "fill_missing_resource_params v dk = (dk', x)" by force
      with Cons.prems(2) Some True have x: "x = None" by (cases x) (auto simp: p)
      with Cons.prems(2) Some True f have r: "fill_items es (PDict (AList.update k0 dk' ds)) = (PDict rs, None)"
        by (simp add: p)
      have "map_of (AList.update k0 dk' ds) k = None" using Cons.prems(3) ne by (simp add: update_conv')
      from Cons.IH[OF dist r this] show ?thesis using ne by (simp add: p)
    qed
  qed
qed

subsection \<open>The diff computes \<open>needsUpdate\<close>\<close>








subsection \<open>One iteration of the poller\<close>

lemma reportsD:
  assumes "reports c (fst (fetch s))"
  obtains rc resp sv where "fetch s = (Inr (rc, resp), snd (fetch s))"
    "py_contains ''state'' resp = Inr True" "py_getitem resp ''state'' = Inr sv" "classify sv = Inr c"
proof -
  obtain out s' where f: "fetch s = (out, s')" by force
  from assms f obtain rc resp where o: "out = Inr (rc, resp)"
    by (cases out) (auto simp: reports_def)
  from assms f o have c: "py_contains ''state'' resp = Inr True" by (simp add: reports_def)
  from assms f o obtain sv where "py_getitem resp ''state'' = Inr sv" "classify sv = Inr c"
    by (cases "py_getitem resp ''state''") (auto simp: reports_def)
  with f o c that show thesis by simp
qed

lemma no_statusD:
  assumes "no_status_not_200 (fst (fetch s))"
  obtains rc resp where "fetch s = (Inr (rc, resp), snd (fetch s))"
    "py_contains ''state'' resp = Inr False" "rc \<noteq> 200"
proof -
  obtain out s' where f: "fetch s = (out, s')" by force
  from assms f obtain rc resp where o: "out = Inr (rc, resp)"
    by (cases out) (auto simp: no_status_not_200_def)
  from assms f o have "py_contains ''state'' resp = Inr False" "rc \<noteq> 200"
    by (simp_all add: no_status_not_200_def)
  with f o that show thesis by simp
qed

lemma wtc_in_progress_step:
  assumes "reports InProgress (fst (fetch s))"
  shows "wtc_loop fetch s cnt n z =
           (if cnt + 1 = 90 then Some (False, snd (fetch s), n + 1, z + 10)
            else wtc_loop fetch (snd (fetch s)) (cnt + 1) (n + 1) (z + 10))"
proof -
  from assms obtain rc resp sv where f: "fetch s = (Inr (rc, resp), snd (fetch s))"
    "py_contains ''state'' resp = Inr True" "py_getitem resp ''state'' = Inr sv"
    "classify sv = Inr InProgress" by (rule reportsD)
  show ?thesis by (subst wtc_loop.simps, subst f(1)) (simp add: f(2-4))
qed

lemma wtc_no_status_step:
  assumes "no_status_not_200 (fst (fetch s))"
  shows "wtc_loop fetch s cnt n z =
           (if cnt + 1 = 90 then Some (False, snd (fetch s), n + 1, z + 1)
            else wtc_loop fetch (snd (fetch s)) (cnt + 1) (n + 1) (z + 1))"
proof -
  from assms obtain rc resp where f: "fetch s = (Inr (rc, resp), snd (fetch s))"
    "py_contains ''state'' resp = Inr False" "rc \<noteq> 200" by (rule no_statusD)
  show ?thesis by (subst wtc_loop.simps, subst f(1)) (simp add: f(2-3))
qed

lemma wtc_failed_step:
  assumes "reports Failed (fst (fetch s))"
  shows "wtc_loop fetch s cnt n z = Some (False, snd (fetch s), n + 1, z)"
proof -
  from assms obtain rc resp sv where f: "fetch s = (Inr (rc, resp), snd (fetch s))"
    "py_contains ''state'' resp = Inr True" "py_getitem resp ''state'' = Inr sv"
    "classify sv = Inr Failed" by (rule reportsD)
  show ?thesis by (subst wtc_loop.simps, subst f(1)) (simp add: f(2-4))
qed

lemma wtc_success_step:
  assumes "reports Success (fst (fetch s))"
  shows "wtc_loop fetch s cnt n z = Some (True, snd (fetch s), n + 1, z)"
proof -
  from assms obtain rc resp sv where f: "fetch s = (Inr (rc, resp), snd (fetch s))"
    "py_contains ''state'' resp = Inr True" "py_getitem resp ''state'' = Inr sv"
    "classify sv = Inr Success" by (rule reportsD)
  show ?thesis by (subst wtc_loop.simps, subst f(1)) (simp add: f(2-4))
qed

lemma wtc_step_cases:
  "(\<exists>b z'. wtc_loop fetch s cnt n z = Some (b, snd (fetch s), n + 1, z') \<and> (body_raises (fst (fetch s)) \<longrightarrow> \<not> b))
   \<or> (cnt + 1 \<noteq> 90 \<and> (\<exists>z'. wtc_loop fetch s cnt n z = wtc_loop fetch (snd (fetch s)) (cnt + 1) (n + 1) z'))"
proof -
  obtain out s' where f: "fetch s = (out, s')" by force
  note u = wtc_loop.simps[of fetch s cnt n z]
  show ?thesis
  proof (cases out)
    case (Inl err)
    show ?thesis using u by (auto simp add: Inl f)
  next
    case (Inr p)
    obtain rc resp where p: "p = (rc, resp)" by force
    show ?thesis
    proof (cases "py_contains ''state'' resp")
      case c: (Inl err)
      show ?thesis using u by (auto simp add: Inr p c f)
    next
      case c: (Inr has_state)
      show ?thesis
      proof (cases has_state)
        case False
        show ?thesis using u by (auto simp add: Inr p c f False body_raises_def)
      next
        case True
        show ?thesis
        proof (cases "py_getitem resp ''state''")
          case g: (Inl err)
          show ?thesis using u by (auto simp add: Inr p c f True g)
        next
          case g: (Inr sv)
          show ?thesis
          proof (cases "classify sv")
            case k: (Inl err)
            show ?thesis using u by (auto simp add: Inr p c f True g k)
          next
            case k: (Inr cl)
            show ?thesis using u by (cases cl) (auto simp add: Inr p c f True g k body_raises_def)
          qed
        qed
      qed
    qed
  qed
qed

lemma wtc_raise_step:
  assumes "body_raises (fst (fetch s))"
  shows "wtc_loop fetch s cnt n z = Some (False, snd (fetch s), n + 1, z)"
proof -
  obtain out s' where f: "fetch s = (out, s')" by force
  show ?thesis using assms f
    by (subst wtc_loop.simps, subst f)
       (auto simp: body_raises_def split: sum.splits)
qed

lemma wtc_always_in_progress:
  assumes "\<forall>s. reports InProgress (fst (fetch s))"
  shows "cnt < 90 \<Longrightarrow> k = nat (90 - cnt) \<Longrightarrow>
         \<exists>s'. wtc_loop fetch s cnt n z = Some (False, s', n + k, z + 10 * int k)"
proof (induction k arbitrary: s cnt n z)
  case 0
  then show ?case by simp
next
  case (Suc k)
  have st: "reports InProgress (fst (fetch s))" using assms by simp
  show ?case
  proof (cases "cnt + 1 = 90")
    case True
    then have "k = 0" using Suc.prems by simp
    then show ?thesis using True by (simp add: wtc_in_progress_step[of fetch s, OF st])
  next
    case False
    then have "cnt + 1 < 90" "k = nat (90 - (cnt + 1))" using Suc.prems by simp_all
    from Suc.IH[OF this, of "snd (fetch s)" "n + 1" "z + 10"]
    show ?thesis using False by (simp add: wtc_in_progress_step[of fetch s, OF st] algebra_simps)
  qed
qed

lemma wtc_always_no_status:
  assumes "\<forall>s. no_status_not_200 (fst (fetch s))"
  shows "cnt < 90 \<Longrightarrow> k = nat (90 - cnt) \<Longrightarrow>
         \<exists>s'. wtc_loop fetch s cnt n z = Some (False, s', n + k, z + int k)"
proof (induction k arbitrary: s cnt n z)
  case 0
  then show ?case by simp
next
  case (Suc k)
  have st: "no_status_not_200 (fst (fetch s))" using assms by simp
  show ?case
  proof (cases "cnt + 1 = 90")
    case True
    then have "k = 0" using Suc.prems by simp
    then show ?thesis using True by (simp add: wtc_no_status_step[of fetch s, OF st])
  next
    case False
    then have "cnt + 1 < 90" "k = nat (90 - (cnt + 1))" using Suc.prems by simp_all
    from Suc.IH[OF this, of "snd (fetch s)" "n + 1" "z + 1"]
    show ?thesis using False by (simp add: wtc_no_status_step[of fetch s, OF st] algebra_simps)
  qed
qed

lemma wtc_total:
  "cnt < 90 \<Longrightarrow> k = nat (90 - cnt) \<Longrightarrow>
   \<exists>b s' m z'. wtc_loop fetch s cnt n z = Some (b, s', m, z') \<and> n < m \<and> m \<le> n + k"
proof (induction k arbitrary: s cnt n z)
  case 0
  then show ?case by simp
next
  case (Suc k)
  from wtc_step_cases[of fetch s cnt n z] show ?case
  proof
    assume "\<exists>b z'. wtc_loop fetch s cnt n z = Some (b, snd (fetch s), n + 1, z') \<and> (body_raises (fst (fetch s)) \<longrightarrow> \<not> b)"
    then show ?thesis by auto
  next
    assume a: "cnt + 1 \<noteq> 90 \<and> (\<exists>z'. wtc_loop fetch s cnt n z = wtc_loop fetch (snd (fetch s)) (cnt + 1) (n + 1) z')"
    then obtain z' where z': "wtc_loop fetch s cnt n z = wtc_loop fetch (snd (fetch s)) (cnt + 1) (n + 1) z'" by blast
    from a have "cnt + 1 < 90" "k = nat (90 - (cnt + 1))" using Suc.prems by simp_all
    from Suc.IH[OF this, of "snd (fetch s)" "n + 1" z'] z'
    show ?thesis by auto
  qed
qed

subsection \<open>Further facts about the diff and the status classes\<close>


lemma in_any_str: "in_any (PStr s) ps = Inr (list_ex (is_substr s) ps)"
  by (induction ps) auto

lemma classify_str:
  "classify (PStr s) =
     Inr (if list_ex (is_substr s) IN_PROGRESS_STATES then InProgress
          else if list_ex (is_substr s) SUCCESS_STATES then Success else Failed)"
  by (simp add: classify_def in_any_str)

subsection \<open>Keys that only \<open>existing\<close> has\<close>


subsection \<open>Extraction and the keys a fill adds\<close>

lemma filter_with_spec_keys:
  "k \<in> fst ` set (filter_with_spec mp cls keys acc) \<Longrightarrow>
   k \<in> fst ` set acc \<or> (k \<in> set keys \<and>
     (if is_base cls then k else get_unique_arg_identifier cls @ ''_'' @ k) \<notin> set (unwanted_resource_params cls))"
proof (induction keys arbitrary: acc)
  case Nil
  then show ?case by simp
next
  case (Cons key keys)
  define ak where "ak = (if is_base cls then key else get_unique_arg_identifier cls @ ''_'' @ key)"
  show ?case
  proof (cases "map_of mp ak \<noteq> None \<and> ak \<notin> set (unwanted_resource_params cls) \<and> map_of mp ak \<noteq> Some PNone")
    case True
    then have "filter_with_spec mp cls (key # keys) acc =
       filter_with_spec mp cls keys (AList.update key (the (map_of mp ak)) acc)"
      unfolding ak_def by (simp add: Let_def)
    with Cons.prems have "k \<in> fst ` set (filter_with_spec mp cls keys (AList.update key (the (map_of mp ak)) acc))"
      by simp
    from Cons.IH[OF this] have
      "k \<in> fst ` set (AList.update key (the (map_of mp ak)) acc) \<or>
       (k \<in> set keys \<and> (if is_base cls then k else get_unique_arg_identifier cls @ ''_'' @ k) \<notin> set (unwanted_resource_params cls))" .
    moreover have "fst ` set (AList.update key (the (map_of mp ak)) acc) = insert key (fst ` set acc)"
      using dom_update[of key "the (map_of mp ak)" acc] by (simp add: dom_map_of_conv_image_fst)
    ultimately show ?thesis using True unfolding ak_def by auto
  next
    case False
    then have "filter_with_spec mp cls (key # keys) acc = filter_with_spec mp cls keys acc"
      unfolding ak_def by (auto simp add: Let_def)
    with Cons.prems Cons.IH[of acc] show ?thesis by auto
  qed
qed

lemma extract_no_id_state:
  "k \<in> {''id'', ''state''} \<Longrightarrow> k \<notin> fst ` set (extract_resource_params mp cls)"
proof
  assume k: "k \<in> {''id'', ''state''}" and m: "k \<in> fst ` set (extract_resource_params mp cls)"
  let ?ak = "if is_base cls then k else get_unique_arg_identifier cls @ ''_'' @ k"
  from m have "k \<in> fst ` set (filter_with_spec mp cls (spec_keys cls) []) \<or> ?ak \<notin> set (unwanted_resource_params cls)"
    unfolding extract_resource_params_def using filter_with_spec_keys[of k mp cls base_arg_spec_keys] by blast
  moreover have "k \<in> fst ` set (filter_with_spec mp cls (spec_keys cls) []) \<Longrightarrow>
      ?ak \<notin> set (unwanted_resource_params cls)"
    using filter_with_spec_keys[of k mp cls "spec_keys cls" "[]"] by simp
  ultimately have "?ak \<notin> set (unwanted_resource_params cls)" by blast
  with k show False by (auto simp: unwanted_resource_params_def split: if_splits)
qed

lemma fill_absent_keys:
  assumes "distinct (map fst es)" "fill_missing_resource_params (PDict es) (PDict ds) = (r, None)"
  shows "\<exists>rs. r = PDict rs \<and> (\<forall>k. map_of ds k = None \<longrightarrow> map_of rs k = map_of es k)"
proof (cases "es = []")
  case True
  with assms show ?thesis by auto
next
  case False
  with assms have f: "fill_items es (PDict ds) = (r, None)" by simp
  from fill_items_frame[of es ds] f obtain rs where rs: "r = PDict rs" by auto
  from fill_items_absent[of es ds rs] assms f rs
  have "\<forall>k. map_of ds k = None \<longrightarrow> map_of rs k = map_of es k" by blast
  with rs show ?thesis by blast
qed

subsection \<open>Unfolding a run on a concrete input\<close>

lemmas run_defs =
  getAttribute_def is_base_def BASE_RESOURCES_def dict_get_def
  extract_resource_params_def base_arg_spec_keys_def unwanted_resource_params_def
  resolve_existing_def send_request_to_API_def and_then_def get_sub_resources_class_of_def
  achieve_present_state_def achieve_absent_state_def append_log_def read_log_def
  INCORRECT_ARGUMENT_NAME_VALUE_def created_entry_def Let_def
  store_request_def fresh_world_def plain_class_def segment_with_def standalone_class_def

subsection \<open>The state a sub-resource reads\<close>

text \<open>
  When the object under \<open>"_parent"\<close> has state absent, a sub-resource reads absent
  unless it opts out, and then it reads its declared state.
\<close>

lemma getAttribute_state_under_absent:
  "\<not> is_base cls \<Longrightarrow>
   getAttribute mp cls (Some (PStr ''absent'')) ''state'' =
     Inr (if achieve_subresource_state_if_del_parent cls
          then dict_get mp (get_unique_arg_identifier cls @ ''_state'') (PStr INCORRECT_ARGUMENT_NAME_VALUE)
          else PStr ''absent'')"
  by (simp add: getAttribute_def)

subsection \<open>Check mode\<close>

text \<open>
  In check mode \<open>_achieve_present_state\<close> and \<open>_achieve_absent_state\<close> send no
  request. The create and the delete branch append their record; the update branch
  raises.
\<close>

lemma dry_run_present_sends_nothing:
  assumes "check_mode env"
    and "achieve_present_state env cls rid existing rp logs w = Some (r, w')"
  shows "calls w' = calls w \<and> remote w' = remote w"
  using assms
  by (auto simp: achieve_present_state_def append_log_def split: sum.splits if_splits logref.splits)

lemma dry_run_absent_sends_nothing:
  assumes "check_mode env"
    and "achieve_absent_state env cls rid existing rp logs w = Some (r, w')"
  shows "calls w' = calls w \<and> remote w' = remote w"
  using assms
  by (auto simp: achieve_absent_state_def append_log_def split: sum.splits if_splits logref.splits)

lemma dry_run_create_logs:
  assumes "check_mode env" "check_for_update existing rp = Inr False"
  shows "achieve_present_state env cls rid existing rp logs w =
           Some (Inr (), append_log logs
                 (Keyed rid
                    [(''changed'', PBool True),
                     (''debug_out'', rp),
                     (''id'', PStr ''12345''),
                     (''resource_type'', PStr (get_resource_name cls))]) w)"
  using assms by (simp add: achieve_present_state_def)

lemma check_mode_update_raises:
  assumes "check_mode env" "check_for_update existing rp = Inr True"
  shows "achieve_present_state env cls rid existing rp logs w = Some (Inl (Raised NameError), w)"
  using assms by (simp add: achieve_present_state_def)

lemma dry_run_delete_logs:
  assumes "check_mode env" "existing \<noteq> PNone"
  shows "achieve_absent_state env cls rid existing rp logs w =
           Some (Inr (), append_log logs
                 (Flat
                    [(''changed'', PBool True),
                     (''debug_out'', rp),
                     (''id'', rid),
                     (''resource_type'', PStr (get_resource_name cls))]) w)"
  using assms by (simp add: achieve_absent_state_def)

subsection \<open>The order of siblings in a run\<close>

text \<open>
  A segment with the sub-resource classes C (priority 1), A (10) and B (5), in this order
  in the class body: created under a present segment in the order A, B, C after the
  segment, and deleted under an absent segment in the order C, B, A before it.
\<close>

lemma sibling_order_created:
  "map_option (\<lambda>r. (fst r, map entry_text (default_logs (snd r))))
     (realize \<lparr>params = [(''id'', PStr ''seg1''), (''state'', PStr ''present''),
                          (''A_id'', PStr ''a''), (''A_state'', PStr ''present''),
                          (''B_id'', PStr ''b''), (''B_state'', PStr ''present''),
                          (''C_id'', PStr ''c''), (''C_state'', PStr ''present'')],
                check_mode = False, communicator = store_request\<rparr>
         (segment_with [plain_class ''C'' 1, plain_class ''A'' 10, plain_class ''B'' 5])
         (ScmBool True) DefaultLogs False (fresh_world []))
   = Some (Inl (ExitJson DefaultLogs),
       [PStr ''NSXTSegment with id seg1 created.'', PStr ''A with id a created.'',
        PStr ''B with id b created.'', PStr ''C with id c created.''])"
  by (simp add: run_defs entry_text_def)

lemma sibling_order_deleted:
  "map_option (\<lambda>r. (fst r, map entry_text (default_logs (snd r))))
     (realize \<lparr>params = [(''id'', PStr ''seg1''), (''state'', PStr ''absent''),
                          (''A_id'', PStr ''a''), (''A_state'', PStr ''present''),
                          (''B_id'', PStr ''b''), (''B_state'', PStr ''present''),
                          (''C_id'', PStr ''c''), (''C_state'', PStr ''present'')],
                check_mode = False, communicator = store_request\<rparr>
         (segment_with [plain_class ''C'' 1, plain_class ''A'' 10, plain_class ''B'' 5])
         (ScmBool True) DefaultLogs False
         (fresh_world [(''/infra/segments/seg1'', PDict [(''_revision'', PInt 0)]),
                       (''/infra/A/a'', PDict [(''_revision'', PInt 0)]),
                       (''/infra/B/b'', PDict [(''_revision'', PInt 0)]),
                       (''/infra/C/c'', PDict [(''_revision'', PInt 0)])]))
   = Some (Inl (ExitJson DefaultLogs),
       [PStr ''C with id c deleted.'', PStr ''B with id b deleted.'',
        PStr ''A with id a deleted.'', PStr ''NSXTSegment with id seg1 deleted.''])"
  by (simp add: run_defs entry_text_def wait_till_delete.simps)

section \<open>The claims\<close>






text \<open>
  Claim C5. If every fetch reports a status of the in-progress class, the create-wait
  returns \<open>False\<close> after exactly 90 fetches (and 90 sleeps of 10 seconds); it does not
  raise and does not go on. The same bound holds when every response has no status field
  and a status code other than 200 (90 sleeps of 1 second).
\<close>
theorem poller_bound_90:
  "((\<forall>s. reports InProgress (fst (fetch s))) \<longrightarrow>
      (\<exists>s'. wait_till_create fetch s = Some (False, s', 90, 900))) \<and>
   ((\<forall>s. no_status_not_200 (fst (fetch s))) \<longrightarrow>
      (\<exists>s'. wait_till_create fetch s = Some (False, s', 90, 90)))"
proof (intro conjI impI)
  assume a: "\<forall>s. reports InProgress (fst (fetch s))"
  from wtc_always_in_progress[OF a, of 0 90 s 0 0]
  show "\<exists>s'. wait_till_create fetch s = Some (False, s', 90, 900)"
    by (simp add: wait_till_create_def)
next
  assume a: "\<forall>s. no_status_not_200 (fst (fetch s))"
  from wtc_always_no_status[OF a, of 0 90 s 0 0]
  show "\<exists>s'. wait_till_create fetch s = Some (False, s', 90, 90)"
    by (simp add: wait_till_create_def)
qed

theorem poller_bound_90_witness:
  "(\<forall>s::nat. reports InProgress (fst (Inr (200, PDict [(''state'', PStr ''pending'')]), s + 1)))
   \<and> (\<exists>s'. wait_till_create (\<lambda>s::nat. (Inr (200, PDict [(''state'', PStr ''pending'')]), s + 1)) 0
             = Some (False, s', 90, 900))
   \<and> (\<forall>s::nat. no_status_not_200 (fst (Inr (404, PDict [(''error'', PStr ''not found'')]), s + 1)))
   \<and> (\<exists>s'. wait_till_create (\<lambda>s::nat. (Inr (404, PDict [(''error'', PStr ''not found'')]), s + 1)) 0
             = Some (False, s', 90, 90))"
  using poller_bound_90[of "\<lambda>s::nat. (Inr (200, PDict [(''state'', PStr ''pending'')]), s + 1)" 0]
        poller_bound_90[of "\<lambda>s::nat. (Inr (404, PDict [(''error'', PStr ''not found'')]), s + 1)" 0]
  by (simp add: reports_def no_status_not_200_def classify_str IN_PROGRESS_STATES_def)

text \<open>
  Claim C6. A status value that is a string falls into exactly one of three classes:
  in progress, success, and failed for every value that is in neither of the first two.
  When the fetched response carries a status field whose value is neither in progress nor
  success, the create-wait returns \<open>False\<close> at once: after that fetch, with no sleep
  added and no retry, at whatever iteration of the loop this happens.
\<close>
theorem failed_status_returns_immediately:
  "(\<exists>c. classify (PStr st) = Inr c) \<and>
   (classify (PStr st) = Inr Failed \<longleftrightarrow>
      \<not> list_ex (is_substr st) IN_PROGRESS_STATES \<and> \<not> list_ex (is_substr st) SUCCESS_STATES) \<and>
   (fetch s = (Inr (rc, resp), s') \<and> py_contains ''state'' resp = Inr True \<and>
    py_getitem resp ''state'' = Inr sv \<and>
    classify sv \<noteq> Inr InProgress \<and> classify sv \<noteq> Inr Success \<longrightarrow>
      wtc_loop fetch s cnt n z = Some (False, s', n + 1, z))"
proof (intro conjI impI)
  show "\<exists>c. classify (PStr st) = Inr c" by (simp add: classify_str)
  show "classify (PStr st) = Inr Failed \<longleftrightarrow>
      \<not> list_ex (is_substr st) IN_PROGRESS_STATES \<and> \<not> list_ex (is_substr st) SUCCESS_STATES"
    by (simp add: classify_str)
  assume a: "fetch s = (Inr (rc, resp), s') \<and> py_contains ''state'' resp = Inr True \<and>
    py_getitem resp ''state'' = Inr sv \<and>
    classify sv \<noteq> Inr InProgress \<and> classify sv \<noteq> Inr Success"
  show "wtc_loop fetch s cnt n z = Some (False, s', n + 1, z)"
  proof (cases "classify sv")
    case (Inl err)
    have "body_raises (fst (fetch s))" using a Inl by (simp add: body_raises_def)
    from wtc_raise_step[of fetch s cnt n z, OF this] a show ?thesis by simp
  next
    case (Inr c)
    with a have "c = Failed" by (cases c) simp_all
    with a Inr have "reports Failed (fst (fetch s))" by (simp add: reports_def)
    from wtc_failed_step[of fetch s cnt n z, OF this] a show ?thesis by simp
  qed
qed

theorem failed_status_returns_immediately_witness:
  "classify (PStr ''pending'') = Inr InProgress \<and> classify (PStr ''in_progress'') = Inr InProgress
   \<and> classify (PStr ''success'') = Inr Success \<and> classify (PStr ''partial_success'') = Inr Success
   \<and> classify (PStr ''failed'') = Inr Failed
   \<and> classify (PStr ''failed'') \<noteq> Inr InProgress \<and> classify (PStr ''failed'') \<noteq> Inr Success
   \<and> wait_till_create (\<lambda>s::nat. (Inr (200, PDict [(''state'', PStr ''failed'')]), Suc s)) 0
        = Some (False, 1, 1, 0)"
  using failed_status_returns_immediately[of "''failed''"
          "\<lambda>s::nat. (Inr (200, PDict [(''state'', PStr ''failed'')]), Suc s)" 0
          200 "PDict [(''state'', PStr ''failed'')]" 1 "PStr ''failed''" 0 0 0]
  by (simp add: classify_str IN_PROGRESS_STATES_def SUCCESS_STATES_def wait_till_create_def)

text \<open>
  Claim C10. The create-wait is total: whatever the fetch does, \<open>_wait_till_create\<close>
  returns a boolean, after at least one and at most 90 fetches, and propagates no
  exception. A fetch that raises, or a response whose status cannot be read, yields
  \<open>False\<close> at the iteration where it happens.
\<close>
theorem wait_till_create_total:
  "(\<exists>b s' m z'. wait_till_create fetch s = Some (b, s', m, z') \<and> 0 < m \<and> m \<le> 90) \<and>
   (body_raises (fst (fetch s)) \<longrightarrow>
      wtc_loop fetch s cnt n z = Some (False, snd (fetch s), n + 1, z))"
proof (intro conjI impI)
  from wtc_total[of 0 90 fetch s 0 0]
  show "\<exists>b s' m z'. wait_till_create fetch s = Some (b, s', m, z') \<and> 0 < m \<and> m \<le> 90"
    by (simp add: wait_till_create_def)
next
  assume "body_raises (fst (fetch s))"
  then show "wtc_loop fetch s cnt n z = Some (False, snd (fetch s), n + 1, z)"
    by (rule wtc_raise_step)
qed

theorem wait_till_create_total_witness:
  "body_raises (fst (Inl OtherException :: exn + int \<times> pyval, Suc 0))
   \<and> wait_till_create (\<lambda>s::nat. (Inl OtherException, Suc s)) 0 = Some (False, 1, 1, 0)"
  using wait_till_create_total[of "\<lambda>s::nat. (Inl OtherException, Suc s)" 0 0 0 0]
  by (simp add: body_raises_def wait_till_create_def)



text \<open>
  Claim C3, as amended. Right after parameter extraction the desired parameters hold
  neither \<open>id\<close> nor \<open>state\<close>. The back-fill copies every key the fetched resource
  has and the desired parameters lack, \<open>id\<close> and \<open>state\<close> included: after a fill
  that returns, the desired parameters hold \<open>id\<close> (and \<open>state\<close>) exactly when the
  existing resource does, with its value.
\<close>
theorem desired_params_id_state:
  "''id'' \<notin> fst ` set (extract_resource_params mp cls) \<and>
   ''state'' \<notin> fst ` set (extract_resource_params mp cls) \<and>
   (distinct (map fst es) \<and>
    fill_missing_resource_params (PDict es) (PDict (extract_resource_params mp cls)) = (PDict rs, None)
      \<longrightarrow> map_of rs ''id'' = map_of es ''id'' \<and> map_of rs ''state'' = map_of es ''state'')"
proof (intro conjI impI)
  show i: "''id'' \<notin> fst ` set (extract_resource_params mp cls)" by (rule extract_no_id_state) simp
  show s: "''state'' \<notin> fst ` set (extract_resource_params mp cls)" by (rule extract_no_id_state) simp
  assume a: "distinct (map fst es) \<and>
    fill_missing_resource_params (PDict es) (PDict (extract_resource_params mp cls)) = (PDict rs, None)"
  from i have ni: "map_of (extract_resource_params mp cls) ''id'' = None"
    by (simp add: map_of_eq_None_iff)
  from s have ns: "map_of (extract_resource_params mp cls) ''state'' = None"
    by (simp add: map_of_eq_None_iff)
  from fill_absent_keys[of es "extract_resource_params mp cls" "PDict rs"] a
  have "\<forall>k. map_of (extract_resource_params mp cls) k = None \<longrightarrow> map_of rs k = map_of es k" by simp
  with ni ns show "map_of rs ''id'' = map_of es ''id''" "map_of rs ''state'' = map_of es ''state''" by simp_all
qed

theorem desired_params_id_state_witness:
  "distinct (map fst [(''id'', PStr ''seg1''), (''display_name'', PStr ''web'')])
   \<and> fill_missing_resource_params (PDict [(''id'', PStr ''seg1''), (''display_name'', PStr ''web'')])
         (PDict (extract_resource_params
            [(''id'', PStr ''seg1''), (''display_name'', PStr ''web''), (''state'', PStr ''present'')]
            (segment_with [])))
       = (PDict [(''display_name'', PStr ''web''), (''id'', PStr ''seg1'')], None)
   \<and> ''id'' \<notin> fst ` set (extract_resource_params
            [(''id'', PStr ''seg1''), (''display_name'', PStr ''web''), (''state'', PStr ''present'')]
            (segment_with []))
   \<and> map_of [(''display_name'', PStr ''web''), (''id'', PStr ''seg1'')] ''id''
       = map_of [(''id'', PStr ''seg1''), (''display_name'', PStr ''web'')] ''id''"
  using desired_params_id_state[of
          "[(''id'', PStr ''seg1''), (''display_name'', PStr ''web''), (''state'', PStr ''present'')]"
          "segment_with []"
          "[(''id'', PStr ''seg1''), (''display_name'', PStr ''web'')]"
          "[(''display_name'', PStr ''web''), (''id'', PStr ''seg1'')]"]
  by (simp add: run_defs)

text \<open>
  The claim as stated fails: a segment that exists on the manager with an \<open>id\<close> field
  has \<open>id\<close> among its desired parameters once \<open>realize\<close> has resolved and
  back-filled them.
\<close>

theorem desired_params_id_state_counterexample:
  "py_contains ''id''
     (fst (snd (resolve_existing
        \<lparr>params = [(''id'', PStr ''seg1''), (''display_name'', PStr ''web''), (''state'', PStr ''present'')],
         check_mode = False, communicator = store_request\<rparr>
        (segment_with []) (PStr ''seg1'')
        (PDict (extract_resource_params
           [(''id'', PStr ''seg1''), (''display_name'', PStr ''web''), (''state'', PStr ''present'')]
           (segment_with [])))
        (fresh_world [(''/infra/segments/seg1'',
                       PDict [(''id'', PStr ''seg1''), (''display_name'', PStr ''web'')])]))))
   = Inr True"
  by (simp add: run_defs)

text \<open>
  Claim C2 at its failing input. In check mode, a segment that exists with another
  \<open>display_name\<close> needs an update. The dry-run branch of the update appends to
  \<open>successfully_updated_resources\<close>, a name that is not bound in
  \<open>_achieve_present_state\<close>: the run ends with a \<open>NameError\<close> and both logs are
  empty. No request but the GET was sent and the manager is unchanged.
\<close>

theorem dry_run_update_raises:
  "realize \<lparr>params = [(''id'', PStr ''seg1''), (''display_name'', PStr ''new''), (''state'', PStr ''present'')],
            check_mode = True, communicator = store_request\<rparr>
     (segment_with []) (ScmBool True) DefaultLogs False
     (fresh_world [(''/infra/segments/seg1'', PDict [(''display_name'', PStr ''old''), (''_revision'', PInt 3)])])
   = Some (Inl (Raised NameError),
       \<lparr>remote = [(''/infra/segments/seg1'', PDict [(''display_name'', PStr ''old''), (''_revision'', PInt 3)])],
        calls = [\<lparr>url = ''/infra/segments/seg1'', http_method = GET, ignore_errors = False, data = PNone\<rparr>],
        slept = 0, default_logs = [], caller_logs = [],
        parent_info = [(''NSXTSegment_id'', PStr ''seg1'')], parent_state = Some (PStr ''present'')\<rparr>)"
  by (simp add: run_defs)

text \<open>
  Claim C1 at its failing input. \<open>realize\<close> is called with a list of the caller's for
  a segment with one port, neither of which exists. \<open>achieve_subresource_state\<close>
  passes the list as the first positional argument of the port's \<open>realize\<close>, which is
  \<open>supports_check_mode\<close>; the port logs to the default list of \<open>realize\<close>. The
  list reported by \<open>exit_json\<close> holds the record of the segment only; the record of the
  port is in the other list. The lists are shown by the keys of their records.
\<close>

theorem caller_log_misses_sub_resource:
  "map_option (\<lambda>r. (fst r, map (\<lambda>e. case e of Keyed i f \<Rightarrow> i | Flat f \<Rightarrow> PNone) (caller_logs (snd r)),
                       map (\<lambda>e. case e of Keyed i f \<Rightarrow> i | Flat f \<Rightarrow> PNone) (default_logs (snd r))))
     (realize \<lparr>params = [(''id'', PStr ''seg1''), (''display_name'', PStr ''web''), (''state'', PStr ''present''),
                          (''Port_id'', PStr ''p1''), (''Port_display_name'', PStr ''uplink''),
                          (''Port_state'', PStr ''present'')],
                check_mode = False, communicator = store_request\<rparr>
         (segment_with [plain_class ''Port'' 5]) (ScmBool True) CallerLogs False (fresh_world []))
   = Some (Inl (ExitJson CallerLogs), [PStr ''seg1''], [PStr ''p1''])"
  by (simp add: run_defs)

text \<open>
  Claim C7 at its failing input. A segment declared absent has two sub-resource classes:
  \<open>Keeper\<close> (priority 1), which opts out of the inheritance and is declared present,
  and \<open>Port\<close> (priority 2), which keeps the default and is declared present. The
  realize of \<open>Keeper\<close> stores \<open>Keeper\<close> under \<open>"_parent"\<close> in the
  \<open>_parent_info\<close> dict all three share, so \<open>Port\<close> reads the state of
  \<open>Keeper\<close>, keeps its declared state and is created by a PATCH, under a parent whose
  own state is absent.
\<close>

theorem absent_parent_sibling_created:
  "map_option (\<lambda>r. (fst r, default_logs (snd r), map (\<lambda>q. (http_method q, url q)) (calls (snd r))))
     (realize \<lparr>params = [(''id'', PStr ''seg1''), (''state'', PStr ''absent''),
                          (''Keeper_id'', PStr ''k1''), (''Keeper_state'', PStr ''present''),
                          (''Port_id'', PStr ''p1''), (''Port_state'', PStr ''present'')],
                check_mode = False, communicator = store_request\<rparr>
         (segment_with [standalone_class ''Keeper'' 1, plain_class ''Port'' 2])
         (ScmBool True) DefaultLogs False (fresh_world []))
   = Some (Inl (ExitJson DefaultLogs),
       [Keyed (PStr ''k1'')
          [(''changed'', PBool True), (''id'', PStr ''k1''),
           (''body'', PList [PInt 200, PDict []]),
           (''message'', PStr ''Keeper with id k1 created.''),
           (''resource_type'', PStr ''Keeper'')],
        Keyed (PStr ''p1'')
          [(''changed'', PBool True), (''id'', PStr ''p1''),
           (''body'', PList [PInt 200, PDict []]),
           (''message'', PStr ''Port with id p1 created.''),
           (''resource_type'', PStr ''Port'')],
        Keyed (PStr ''seg1'')
          [(''changed'', PBool False),
           (''msg'', PStr ''No NSXTSegment exist with id seg1''),
           (''resource_type'', PStr ''NSXTSegment'')]],
       [(GET, ''/infra/segments/seg1''), (GET, ''/infra/Keeper/k1''), (PATCH, ''/infra/Keeper/k1''),
        (GET, ''/infra/Port/p1''), (PATCH, ''/infra/Port/p1'')])"
  by (simp add: run_defs)

end
